theory Spec2Isabelle
  imports Main "HOL-Library.Word"
begin

unbundle bit_operations_syntax

section \<open>Restoring the full grid from the shrunk data\<close>

text \<open>
  The notebook \<^verbatim>\<open>prep-superresolution-llc4320.ipynb\<close> and the README read two flat
  arrays of big-endian float32 values (\<^verbatim>\<open>np.fromfile(..., '>f4')\<close>) and restore the full
  grid with two boolean-mask assignments on the array \<^verbatim>\<open>mask\<close>:
  \<^verbatim>\<open>
  if len(sss_shrunk) != np.sum(mask != 0):
      raise ValueError('Mismatch between shrunk data and mask wet cells.')
  mask[mask != 0] = sss_shrunk
  mask[mask == 0] = np.nan
  \<close>
  The README has the two assignments without the length check.
\<close>

subsection \<open>float32 values\<close>

text \<open>
  A float32 is modelled by its 32 bits. The code only copies values and compares them
  with zero, so no arithmetic is needed: \<^verbatim>\<open>x == 0\<close> holds for the two zeros \<open>+0.0\<close>
  (all bits clear) and \<open>-0.0\<close> (only the sign bit set) and for nothing else; in
  particular \<^verbatim>\<open>nan != 0\<close> is true.
\<close>

type_synonym f32 = "32 word"

definition f32_eq_zero :: "f32 \<Rightarrow> bool" where
  "f32_eq_zero x \<longleftrightarrow> x = 0 \<or> x = 0x80000000"

text \<open>\<^verbatim>\<open>np.nan\<close> stored into a float32 array: the quiet NaN.\<close>

definition nan :: f32 where
  "nan = 0x7FC00000"

subsection \<open>The NumPy operations the code uses\<close>

text \<open>\<^verbatim>\<open>mask != 0\<close> and \<^verbatim>\<open>mask == 0\<close>: fresh boolean arrays of the same length.\<close>

definition ne_zero :: "f32 list \<Rightarrow> bool list" where
  "ne_zero a = map (\<lambda>x. \<not> f32_eq_zero x) a"

definition eq_zero :: "f32 list \<Rightarrow> bool list" where
  "eq_zero a = map f32_eq_zero a"

text \<open>\<^verbatim>\<open>np.sum\<close> of a boolean array: the number of True entries.\<close>

definition np_sum :: "bool list \<Rightarrow> nat" where
  "np_sum b = length (filter (\<lambda>t. t) b)"

text \<open>
  Both exceptions of the restore step are Python \<^verbatim>\<open>ValueError\<close>s: the one the notebook
  raises itself, and the one NumPy raises when a boolean-mask assignment gets the wrong
  number of values ("cannot assign n input values to the m output values where the mask
  is true").
\<close>

datatype error = Mismatch | CannotAssign nat nat

text \<open>
  The copy loop of \<^verbatim>\<open>a[b] = v\<close>: the True positions of \<open>b\<close>, in increasing index order,
  take the values of \<open>v\<close> in order. NumPy checks the number of values before it
  starts, so the values cannot run out; the equation for that case leaves the rest of
  the array as it is.
\<close>

fun put_where :: "f32 list \<Rightarrow> bool list \<Rightarrow> f32 list \<Rightarrow> f32 list" where
  "put_where (x # a) (t # b) vs =
     (if t then (case vs of v # vs' \<Rightarrow> v # put_where a b vs' | [] \<Rightarrow> x # a)
      else x # put_where a b vs)"
| "put_where a _ _ = a"

text \<open>
  \<^verbatim>\<open>a[b] = v\<close> for a one-dimensional array \<open>v\<close>. A value array of length 1 is broadcast
  to every True position; any other length must equal the number of True positions, or
  NumPy raises before it writes anything.
\<close>

definition setitem_bool :: "f32 list \<Rightarrow> bool list \<Rightarrow> f32 list \<Rightarrow> error + f32 list" where
  "setitem_bool a b v =
     (let size = np_sum b in
      if length v \<noteq> 1 then
        (if size \<noteq> length v then Inl (CannotAssign (length v) size)
         else Inr (put_where a b v))
      else Inr (put_where a b (replicate size (hd v))))"

text \<open>\<^verbatim>\<open>a[b] = c\<close> for a scalar \<open>c\<close>.\<close>

definition setitem_bool_scalar :: "f32 list \<Rightarrow> bool list \<Rightarrow> f32 \<Rightarrow> f32 list" where
  "setitem_bool_scalar a b c = map (\<lambda>(x, t). if t then c else x) (zip a b)"

subsection \<open>Arrays are objects: the store\<close>

text \<open>
  \<^verbatim>\<open>mask\<close> and \<^verbatim>\<open>sss_shrunk\<close> are names of NumPy arrays, and the assignments write into
  the array \<^verbatim>\<open>mask\<close> names. The store maps a reference to the contents of its array; a
  statement returns the exception it raised, if any, and the store it leaves behind.
\<close>

type_synonym ref = nat
type_synonym store = "ref \<Rightarrow> f32 list"

text \<open>
  The restore step of the notebook cell; \<open>mask_ref\<close> and \<open>shrunk_ref\<close> are the arrays
  the names \<^verbatim>\<open>mask\<close> and \<^verbatim>\<open>sss_shrunk\<close> are bound to.
\<close>

definition restore_full_grid :: "ref \<Rightarrow> ref \<Rightarrow> store \<Rightarrow> error option \<times> store" where
  "restore_full_grid mask_ref shrunk_ref h =
     (if length (h shrunk_ref) \<noteq> np_sum (ne_zero (h mask_ref)) then (Some Mismatch, h)
      else
        (case setitem_bool (h mask_ref) (ne_zero (h mask_ref)) (h shrunk_ref) of
           Inl e \<Rightarrow> (Some e, h)
         | Inr a \<Rightarrow>
             (let h1 = h(mask_ref := a)
              in (None, h1(mask_ref := setitem_bool_scalar (h1 mask_ref) (eq_zero (h1 mask_ref)) nan)))))"

text \<open>The restore step of the README's usage example: no length check.\<close>

definition restore_full_grid_readme :: "ref \<Rightarrow> ref \<Rightarrow> store \<Rightarrow> error option \<times> store" where
  "restore_full_grid_readme mask_ref shrunk_ref h =
     (case setitem_bool (h mask_ref) (ne_zero (h mask_ref)) (h shrunk_ref) of
        Inl e \<Rightarrow> (Some e, h)
      | Inr a \<Rightarrow>
          (let h1 = h(mask_ref := a)
           in (None, h1(mask_ref := setitem_bool_scalar (h1 mask_ref) (eq_zero (h1 mask_ref)) nan))))"

text \<open>
  The contents the two assignments leave in the array \<^verbatim>\<open>mask\<close> when neither raises:
  the overlay of the values \<open>v\<close>, then the fill of what compares equal to zero.
\<close>

definition dense_of :: "f32 list \<Rightarrow> f32 list \<Rightarrow> f32 list" where
  "dense_of a v =
     (let a1 = put_where a (ne_zero a) v in setitem_bool_scalar a1 (eq_zero a1) nan)"

text \<open>
  The wet positions of a mask, in increasing index order (\<^verbatim>\<open>np.flatnonzero(mask)\<close>):
  the \<open>k\<close>-th nonzero position is \<open>wet_positions a ! k\<close>.
\<close>

definition wet_positions :: "f32 list \<Rightarrow> nat list" where
  "wet_positions a = filter (\<lambda>i. \<not> f32_eq_zero (a ! i)) [0..<length a]"

text \<open>
  A store for examples: the mask array at reference 0, the shrunk array at reference 1,
  nothing elsewhere.
\<close>

definition store_of :: "f32 list \<Rightarrow> f32 list \<Rightarrow> store" where
  "store_of m s = (\<lambda>r. if r = 0 then m else if r = 1 then s else [])"

text \<open>Some float32 constants: 1.0 and 5.0.\<close>

definition f32_one :: f32 where "f32_one = 0x3F800000"
definition f32_five :: f32 where "f32_five = 0x40A00000"

section \<open>Splitting the dense grid into the two hemispheres\<close>

text \<open>
  The notebook and the README call \<^verbatim>\<open>utils.mds2d(mask)\<close> and print the shapes of the two
  arrays it returns; the README gives the output \<^verbatim>\<open>(12960, 8640) (8640, 12960)\<close>. The
  module \<^verbatim>\<open>utils.py\<close> is not part of the repository.
\<close>

text \<open>
  Modelled from the spec: the error kinds of section 7 (\<^verbatim>\<open>utils.mds2d\<close> is missing, so
  the errors of the split are the spec's).
\<close>

datatype spec_error = MissingFileError | ShapeMismatchError | GeometryUnknownError

text \<open>
  Modelled from the spec: the constants of a geometry (section 3), missing with
  \<^verbatim>\<open>utils.py\<close>: the grid dimensions \<open>ROWS\<close> and \<open>COLS\<close>, with \<open>N = ROWS * COLS\<close>, and
  the fixed shapes of the east and west tiles.
\<close>

record geometry =
  ROWS :: nat
  COLS :: nat
  EAST_ROWS :: nat
  EAST_COLS :: nat
  WEST_ROWS :: nat
  WEST_COLS :: nat

text \<open>
  Modelled from the spec: the reference geometry, \<open>ROWS = 12960\<close>, \<open>COLS = 8640\<close>, east
  tile \<open>12960 x 8640\<close>, west tile \<open>8640 x 12960\<close>.
\<close>

definition reference_geometry :: geometry where
  "reference_geometry =
     \<lparr>ROWS = 12960, COLS = 8640,
      EAST_ROWS = 12960, EAST_COLS = 8640, WEST_ROWS = 8640, WEST_COLS = 12960\<rparr>"

text \<open>
  Modelled from the spec: the contract of \<open>split\<close> (section 4.2; the implementation,
  \<^verbatim>\<open>utils.mds2d\<close>, is missing) as far as the spec fixes it. It fails with
  ShapeMismatchError when the length of the dense grid is not \<open>N\<close>, and otherwise returns
  an east and a west tile of the geometry's fixed shapes. The spec leaves the index
  mapping from flat position to (hemisphere, row, column) open, so the model returns the
  shapes of the two tiles and not their contents.
\<close>

definition split_shapes :: "geometry \<Rightarrow> f32 list \<Rightarrow> spec_error + (nat \<times> nat) \<times> (nat \<times> nat)" where
  "split_shapes g dense =
     (if length dense \<noteq> ROWS g * COLS g then Inl ShapeMismatchError
      else Inr ((EAST_ROWS g, EAST_COLS g), (WEST_ROWS g, WEST_COLS g)))"

section \<open>Properties\<close>

subsection \<open>The boolean-mask assignments\<close>

lemma np_sum_simps [simp]:
  "np_sum [] = 0" "np_sum (t # b) = (if t then Suc (np_sum b) else np_sum b)"
  by (simp_all add: np_sum_def)

lemma np_sum_append: "np_sum (b @ c) = np_sum b + np_sum c"
  by (simp add: np_sum_def)

lemma length_put_where: "length (put_where a b vs) = length a"
  by (induction a b vs rule: put_where.induct) (auto split: list.splits)

text \<open>
  Position \<open>i\<close> after the overlay: a True position takes the value whose index is the
  number of True positions before \<open>i\<close>; a False position keeps its value.
\<close>

lemma put_where_nth:
  "length b = length a \<Longrightarrow> np_sum b \<le> length vs \<Longrightarrow> i < length a \<Longrightarrow>
   put_where a b vs ! i = (if b ! i then vs ! np_sum (take i b) else a ! i)"
proof (induction a b vs arbitrary: i rule: put_where.induct)
  case (1 x a t b vs)
  show ?case
  proof (cases t)
    case True
    with 1(4) obtain v vs' where vs: "vs = v # vs'" by (cases vs) auto
    show ?thesis
    proof (cases i)
      case 0
      then show ?thesis using True vs by simp
    next
      case (Suc j)
      then show ?thesis using True vs 1(1)[OF True vs, of j] 1(3,4,5) by simp
    qed
  next
    case False
    show ?thesis
    proof (cases i)
      case 0
      then show ?thesis using False by simp
    next
      case (Suc j)
      then show ?thesis using False 1(2)[OF False, of j] 1(3,4,5) by simp
    qed
  qed
qed simp_all

subsection \<open>The wet positions\<close>

lemma wet_positions_snoc:
  "wet_positions (a @ [x]) = wet_positions a @ (if f32_eq_zero x then [] else [length a])"
  by (auto simp: wet_positions_def nth_append intro: filter_cong)

lemma length_wet_positions: "length (wet_positions a) = np_sum (ne_zero a)"
proof (induction a rule: rev_induct)
  case Nil
  show ?case by (simp add: wet_positions_def ne_zero_def)
next
  case (snoc x a)
  then show ?case by (simp add: wet_positions_snoc ne_zero_def np_sum_append)
qed

text \<open>The \<open>k\<close>-th wet position is a nonzero position with exactly \<open>k\<close> nonzero positions before it.\<close>

lemma wet_positions_nth:
  "k < length (wet_positions a) \<Longrightarrow>
   wet_positions a ! k < length a \<and> \<not> f32_eq_zero (a ! (wet_positions a ! k)) \<and>
   np_sum (ne_zero (take (wet_positions a ! k) a)) = k"
proof (induction a rule: rev_induct)
  case Nil
  then show ?case by (simp add: wet_positions_def)
next
  case (snoc x a)
  show ?case
  proof (cases "k < length (wet_positions a)")
    case True
    with snoc.IH show ?thesis
      by (simp add: wet_positions_snoc nth_append)
  next
    case False
    with snoc.prems have k: "k = length (wet_positions a)" and x: "\<not> f32_eq_zero x"
      by (auto simp: wet_positions_snoc split: if_splits)
    then show ?thesis
      by (simp add: wet_positions_snoc nth_append length_wet_positions)
  qed
qed

subsection \<open>The restore step when the lengths agree\<close>

lemma setitem_bool_exact:
  "length v = np_sum b \<Longrightarrow> setitem_bool a b v = Inr (put_where a b v)"
  by (cases v) (auto simp: setitem_bool_def Let_def)

lemma fill_eq_map:
  "setitem_bool_scalar a (eq_zero a) c = map (\<lambda>x. if f32_eq_zero x then c else x) a"
  by (simp add: setitem_bool_scalar_def eq_zero_def zip_map2 zip_same_conv_map)

lemma restore_full_grid_ok:
  "length (h s) = np_sum (ne_zero (h m)) \<Longrightarrow>
   restore_full_grid m s h = (None, h(m := dense_of (h m) (h s)))"
  by (simp add: restore_full_grid_def setitem_bool_exact dense_of_def Let_def)

lemma restore_full_grid_readme_ok:
  "length (h s) = np_sum (ne_zero (h m)) \<Longrightarrow>
   restore_full_grid_readme m s h = (None, h(m := dense_of (h m) (h s)))"
  by (simp add: restore_full_grid_readme_def setitem_bool_exact dense_of_def Let_def)

lemma length_dense_of: "length (dense_of a v) = length a"
  by (simp add: dense_of_def fill_eq_map Let_def length_put_where)

lemma np_sum_take_le: "np_sum (take i b) \<le> np_sum b"
  by (metis append_take_drop_id np_sum_append le_add1)

lemma dense_of_nth:
  assumes "length v = np_sum (ne_zero a)" "i < length a"
  shows "dense_of a v ! i =
     (if f32_eq_zero (a ! i) then nan
      else if f32_eq_zero (v ! np_sum (ne_zero (take i a))) then nan
      else v ! np_sum (ne_zero (take i a)))"
proof -
  have "put_where a (ne_zero a) v ! i =
      (if ne_zero a ! i then v ! np_sum (take i (ne_zero a)) else a ! i)"
    using assms by (intro put_where_nth) (simp_all add: ne_zero_def)
  then show ?thesis
    using assms by (simp add: dense_of_def Let_def fill_eq_map length_put_where ne_zero_def take_map)
qed

lemma put_where_replicate:
  "np_sum (ne_zero a) \<le> n \<Longrightarrow>
   put_where a (ne_zero a) (replicate n v) = map (\<lambda>x. if f32_eq_zero x then x else v) a"
proof (induction a arbitrary: n)
  case Nil
  show ?case by simp
next
  case (Cons x a)
  show ?case
  proof (cases "f32_eq_zero x")
    case True
    with Cons show ?thesis by (simp add: ne_zero_def)
  next
    case False
    with Cons.prems obtain n' where "n = Suc n'" by (cases n) (auto simp: ne_zero_def)
    with False Cons show ?thesis by (simp add: ne_zero_def)
  qed
qed

subsection \<open>The restore step when one value is broadcast\<close>

lemma fill_after_broadcast:
  "setitem_bool_scalar (map (\<lambda>x. if f32_eq_zero x then x else v) a)
     (eq_zero (map (\<lambda>x. if f32_eq_zero x then x else v) a)) nan =
   map (\<lambda>x. if f32_eq_zero x then nan else if f32_eq_zero v then nan else v) a"
  unfolding fill_eq_map by (induction a) auto

lemma setitem_bool_broadcast:
  "setitem_bool a (ne_zero a) [v] = Inr (map (\<lambda>x. if f32_eq_zero x then x else v) a)"
  by (simp add: setitem_bool_def Let_def put_where_replicate)

subsection \<open>The README variant on a length mismatch\<close>

text \<open>
  Without the notebook's check, a mismatch is left to NumPy: the assignment raises, before
  it writes, unless the shrunk array has exactly one value.
\<close>

lemma restore_full_grid_readme_raises:
  "length (h shrunk_ref) \<noteq> np_sum (ne_zero (h mask_ref)) \<Longrightarrow> length (h shrunk_ref) \<noteq> 1 \<Longrightarrow>
   restore_full_grid_readme mask_ref shrunk_ref h =
     (Some (CannotAssign (length (h shrunk_ref)) (np_sum (ne_zero (h mask_ref)))), h)"
  by (simp add: restore_full_grid_readme_def setitem_bool_def Let_def)

subsection \<open>The restore step on data without zeros\<close>

text \<open>
  When the lengths agree and no value of the shrunk array compares equal to zero, the
  restore step does what its comment says: the dense grid has the mask's length, the
  \<open>k\<close>-th wet position holds \<open>sss_shrunk[k]\<close>, every dry position holds NaN, and the
  values at the wet positions, in order, are the shrunk array.
\<close>

lemma restore_full_grid_nonzero_data:
  assumes len: "length (h shrunk_ref) = np_sum (ne_zero (h mask_ref))"
    and nz: "list_all (\<lambda>x. \<not> f32_eq_zero x) (h shrunk_ref)"
    and r: "restore_full_grid mask_ref shrunk_ref h = (e, h')"
  shows "e = None" and "length (h' mask_ref) = length (h mask_ref)"
    and "k < length (h shrunk_ref) \<Longrightarrow> h' mask_ref ! (wet_positions (h mask_ref) ! k) = h shrunk_ref ! k"
    and "i < length (h mask_ref) \<Longrightarrow> f32_eq_zero (h mask_ref ! i) \<Longrightarrow> h' mask_ref ! i = nan"
    and "map (\<lambda>i. h' mask_ref ! i) (wet_positions (h mask_ref)) = h shrunk_ref"
proof -
  from restore_full_grid_ok [OF len] r
  have e: "e = None" and h': "h' mask_ref = dense_of (h mask_ref) (h shrunk_ref)" by auto
  show "e = None" by (rule e)
  show "length (h' mask_ref) = length (h mask_ref)" by (simp add: h' length_dense_of)
  have nth: "h' mask_ref ! (wet_positions (h mask_ref) ! k) = h shrunk_ref ! k"
    if "k < length (h shrunk_ref)" for k
  proof -
    from that len have k: "k < length (wet_positions (h mask_ref))"
      by (simp add: length_wet_positions)
    from nz that have "\<not> f32_eq_zero (h shrunk_ref ! k)"
      by (simp add: list_all_length)
    with wet_positions_nth [OF k] len show ?thesis
      by (simp add: h' dense_of_nth)
  qed
  then show "k < length (h shrunk_ref) \<Longrightarrow> h' mask_ref ! (wet_positions (h mask_ref) ! k) = h shrunk_ref ! k" .
  show "i < length (h mask_ref) \<Longrightarrow> f32_eq_zero (h mask_ref ! i) \<Longrightarrow> h' mask_ref ! i = nan"
    using len by (simp add: h' dense_of_nth)
  show "map (\<lambda>i. h' mask_ref ! i) (wet_positions (h mask_ref)) = h shrunk_ref"
    using nth len by (intro nth_equalityI) (simp_all add: length_wet_positions)
qed

section \<open>The claims\<close>

text \<open>The definitions a concrete run unfolds.\<close>

lemmas ex_defs = restore_full_grid_def restore_full_grid_readme_def store_of_def ne_zero_def eq_zero_def
  f32_eq_zero_def setitem_bool_def setitem_bool_scalar_def nan_def f32_one_def f32_five_def Let_def

subsection \<open>Length mismatch\<close>

text \<open>
  C3. Whenever the length of the shrunk array differs from the number of nonzero mask
  entries, the notebook's restore step raises its \<^verbatim>\<open>ValueError\<close> (the spec's
  ShapeMismatchError). The check comes first, before any write: the store the exception
  leaves behind is the store the step started from, so there is no partial
  reconstruction.
\<close>

theorem restore_full_grid_mismatch:
  "length (h shrunk_ref) \<noteq> np_sum (ne_zero (h mask_ref)) \<Longrightarrow>
   restore_full_grid mask_ref shrunk_ref h = (Some Mismatch, h)"
  by (simp add: restore_full_grid_def)

text \<open>
  The spec's example: mask \<open>[0, 1, 1, 0]\<close> has two wet cells, the shrunk array \<open>[5.0]\<close>
  has one value.
\<close>

theorem restore_full_grid_mismatch_witness:
  "np_sum (ne_zero (store_of [0, f32_one, f32_one, 0] [f32_five] 0)) = 2 \<and>
   length (store_of [0, f32_one, f32_one, 0] [f32_five] 1) = 1 \<and>
   restore_full_grid 0 1 (store_of [0, f32_one, f32_one, 0] [f32_five]) =
     (Some Mismatch, store_of [0, f32_one, f32_one, 0] [f32_five])"
proof -
  have n: "np_sum (ne_zero (store_of [0, f32_one, f32_one, 0] [f32_five] 0)) = 2"
    by (simp add: store_of_def ne_zero_def f32_eq_zero_def f32_one_def)
  have l: "length (store_of [0, f32_one, f32_one, 0] [f32_five] 1) = 1"
    by (simp add: store_of_def)
  from n l have "length (store_of [0, f32_one, f32_one, 0] [f32_five] 1) \<noteq>
      np_sum (ne_zero (store_of [0, f32_one, f32_one, 0] [f32_five] 0))"
    by simp
  from restore_full_grid_mismatch [OF this] n l show ?thesis by simp
qed

subsection \<open>The all-dry mask\<close>

text \<open>
  C7. For a mask whose entries all compare equal to zero (no wet cell) and an empty
  shrunk array, the restore step raises nothing and leaves in the mask array a grid of
  the mask's length filled with NaN.
\<close>

theorem restore_full_grid_all_dry:
  assumes "list_all f32_eq_zero (h mask_ref)" and "h shrunk_ref = []"
  shows "restore_full_grid mask_ref shrunk_ref h =
           (None, h(mask_ref := replicate (length (h mask_ref)) nan))"
proof -
  from assms(1) have z: "np_sum (ne_zero (h mask_ref)) = 0"
    by (induction "h mask_ref") (simp_all add: ne_zero_def list_all_iff np_sum_def)
  have "put_where (h mask_ref) (ne_zero (h mask_ref)) (replicate 0 nan) =
      map (\<lambda>x. if f32_eq_zero x then x else nan) (h mask_ref)"
    by (rule put_where_replicate) (simp add: z)
  then have "dense_of (h mask_ref) [] = map (\<lambda>x. nan) (h mask_ref)"
    using assms(1) by (simp add: dense_of_def fill_eq_map Let_def list_all_iff)
  then have "dense_of (h mask_ref) [] = replicate (length (h mask_ref)) nan"
    by (simp add: map_replicate_const)
  with restore_full_grid_ok [of h shrunk_ref mask_ref] z assms(2) show ?thesis by simp
qed

theorem restore_full_grid_all_dry_witness:
  "list_all f32_eq_zero (store_of [0, 0x80000000, 0] [] 0) \<and> store_of [0, 0x80000000, 0] [] 1 = [] \<and>
   restore_full_grid 0 1 (store_of [0, 0x80000000, 0] []) =
     (None, (store_of [0, 0x80000000, 0] [])(0 := [nan, nan, nan]))"
proof -
  have a: "list_all f32_eq_zero (store_of [0, 0x80000000, 0] [] 0)"
    by (simp add: store_of_def f32_eq_zero_def)
  have b: "store_of [0, 0x80000000, 0] [] 1 = []"
    by (simp add: store_of_def)
  have c: "replicate (length (store_of [0, 0x80000000, 0] [] 0)) nan = [nan, nan, nan]"
    by (simp add: store_of_def)
  from restore_full_grid_all_dry [OF a b] a b c show ?thesis by simp
qed

subsection \<open>A wet cell whose value is zero\<close>

text \<open>
  C1. The claim asks that the dense grid hold \<open>shrunk[k]\<close> at the \<open>k\<close>-th nonzero mask
  position. With mask \<open>[0.0, 1.0, 1.0]\<close> and shrunk data \<open>[5.0, 0.0]\<close> the lengths agree
  and the restore step raises nothing, but the second wet cell holds NaN, not the \<open>0.0\<close>
  of the shrunk data: the fill \<^verbatim>\<open>mask[mask == 0] = np.nan\<close> is computed on the array
  after the overlay.
\<close>

theorem restore_full_grid_wet_zero:
  "fst (restore_full_grid 0 1 (store_of [0, f32_one, f32_one] [f32_five, 0])) = None \<and>
   snd (restore_full_grid 0 1 (store_of [0, f32_one, f32_one] [f32_five, 0])) 0 = [nan, f32_five, nan]"
  by (simp add: ex_defs)

subsection \<open>The restore step writes into the mask\<close>

text \<open>
  C2, as stated, fails: the claim asks that the mask be unchanged after the call and that
  the output be a fresh buffer. With mask \<open>[0.0, 1.0]\<close> and shrunk data \<open>[5.0]\<close> the
  restore step succeeds and the mask array holds \<open>[NaN, 5.0]\<close> afterwards.
\<close>

theorem restore_full_grid_overwrites_mask:
  "fst (restore_full_grid 0 1 (store_of [0, f32_one] [f32_five])) = None \<and>
   store_of [0, f32_one] [f32_five] 0 = [0, f32_one] \<and>
   snd (restore_full_grid 0 1 (store_of [0, f32_one] [f32_five])) 0 = [nan, f32_five] \<and>
   snd (restore_full_grid 0 1 (store_of [0, f32_one] [f32_five])) 0 \<noteq>
     store_of [0, f32_one] [f32_five] 0"
  by (simp add: ex_defs)

text \<open>
  C2, amended. The restore step leaves the shrunk array unchanged, and every other array
  but the mask's. When it raises, it leaves the mask unchanged too. When it succeeds, it
  has overwritten the mask array in place with the dense grid: the output is the mask's
  own buffer, not a fresh one.
\<close>

theorem restore_full_grid_writes_mask_only:
  assumes "restore_full_grid mask_ref shrunk_ref h = (e, h')" and "shrunk_ref \<noteq> mask_ref"
  shows "h' shrunk_ref = h shrunk_ref \<and>
         h' = (if e = None then h(mask_ref := dense_of (h mask_ref) (h shrunk_ref)) else h)"
proof (cases "length (h shrunk_ref) = np_sum (ne_zero (h mask_ref))")
  case True
  from restore_full_grid_ok [OF True] assms show ?thesis by auto
next
  case False
  with assms show ?thesis by (auto simp: restore_full_grid_def)
qed

theorem restore_full_grid_writes_mask_only_witness:
  "restore_full_grid 0 1 (store_of [0, f32_one] [f32_five]) =
     (None, (store_of [0, f32_one] [f32_five])(0 := [nan, f32_five])) \<and>
   (1::nat) \<noteq> 0 \<and>
   ((store_of [0, f32_one] [f32_five])(0 := [nan, f32_five])) 1 =
     store_of [0, f32_one] [f32_five] 1 \<and>
   dense_of (store_of [0, f32_one] [f32_five] 0) (store_of [0, f32_one] [f32_five] 1) =
     [nan, f32_five]"
proof -
  have r: "restore_full_grid 0 1 (store_of [0, f32_one] [f32_five]) =
     (None, (store_of [0, f32_one] [f32_five])(0 := [nan, f32_five]))"
    by (simp add: ex_defs)
  have d: "dense_of (store_of [0, f32_one] [f32_five] 0) (store_of [0, f32_one] [f32_five] 1) =
     [nan, f32_five]"
    by (simp add: dense_of_def ex_defs)
  from restore_full_grid_writes_mask_only [OF r] r d show ?thesis by simp
qed

subsection \<open>Two runs\<close>

text \<open>
  C6, as stated, fails for a repeated call on the same mask reference: after a first
  successful call on mask \<open>[0.0, 1.0]\<close> and shrunk data \<open>[5.0]\<close> the mask array holds
  \<open>[NaN, 5.0]\<close>, both entries compare unequal to zero, and the second call raises on the
  length check instead of returning the same grid.
\<close>

theorem restore_full_grid_second_call:
  "fst (restore_full_grid 0 1 (store_of [0, f32_one] [f32_five])) = None \<and>
   fst (restore_full_grid 0 1 (snd (restore_full_grid 0 1 (store_of [0, f32_one] [f32_five])))) =
     Some Mismatch"
  by (simp add: ex_defs)

text \<open>
  C6, amended. The restore step is deterministic in the contents of its two arrays: two
  calls, on whatever references and in whatever stores, whose mask arrays hold the same
  values and whose shrunk arrays hold the same values, raise or succeed alike and leave
  bit-identical grids in their mask arrays.
\<close>

theorem restore_full_grid_deterministic:
  assumes "h1 m1 = h2 m2" and "h1 s1 = h2 s2"
  shows "fst (restore_full_grid m1 s1 h1) = fst (restore_full_grid m2 s2 h2) \<and>
         snd (restore_full_grid m1 s1 h1) m1 = snd (restore_full_grid m2 s2 h2) m2"
  using assms by (simp add: restore_full_grid_def Let_def split: sum.splits)

theorem restore_full_grid_deterministic_witness:
  "store_of [0, f32_one] [f32_five] 0 = (\<lambda>r::ref. if r = 7 then [0, f32_one] else [f32_five]) 7 \<and>
   store_of [0, f32_one] [f32_five] 1 = (\<lambda>r::ref. if r = 7 then [0, f32_one] else [f32_five]) 3 \<and>
   fst (restore_full_grid 0 1 (store_of [0, f32_one] [f32_five])) =
     fst (restore_full_grid 7 3 (\<lambda>r::ref. if r = 7 then [0, f32_one] else [f32_five])) \<and>
   snd (restore_full_grid 0 1 (store_of [0, f32_one] [f32_five])) 0 =
     snd (restore_full_grid 7 3 (\<lambda>r::ref. if r = 7 then [0, f32_one] else [f32_five])) 7"
proof -
  let ?h2 = "\<lambda>r::ref. if r = 7 then [0, f32_one] else [f32_five]"
  have a: "store_of [0, f32_one] [f32_five] 0 = ?h2 7"
    by (simp add: store_of_def)
  have b: "store_of [0, f32_one] [f32_five] 1 = ?h2 3"
    by (simp add: store_of_def)
  from restore_full_grid_deterministic [OF a b] a b show ?thesis by simp
qed

subsection \<open>Zeros in the shrunk data\<close>

text \<open>
  C9. When the lengths agree, a wet cell whose shrunk value compares equal to zero
  (\<open>0.0\<close>, and \<open>-0.0\<close> as well) holds NaN in the dense grid, in the notebook and in the
  README variant: the fill of the entries equal to zero runs after the overlay. The
  wet cell is the \<open>k\<close>-th nonzero position of the mask, \<open>k\<close> the index of the value.
\<close>

theorem restore_full_grid_zero_becomes_nan:
  assumes "length (h shrunk_ref) = np_sum (ne_zero (h mask_ref))"
    and "k < length (h shrunk_ref)" and "f32_eq_zero (h shrunk_ref ! k)"
  shows "\<not> f32_eq_zero (h mask_ref ! (wet_positions (h mask_ref) ! k)) \<and>
         fst (restore_full_grid mask_ref shrunk_ref h) = None \<and>
         snd (restore_full_grid mask_ref shrunk_ref h) mask_ref ! (wet_positions (h mask_ref) ! k) = nan \<and>
         fst (restore_full_grid_readme mask_ref shrunk_ref h) = None \<and>
         snd (restore_full_grid_readme mask_ref shrunk_ref h) mask_ref ! (wet_positions (h mask_ref) ! k) = nan"
proof -
  from assms have k: "k < length (wet_positions (h mask_ref))"
    by (simp add: length_wet_positions)
  note w = wet_positions_nth [OF k]
  from w assms have "dense_of (h mask_ref) (h shrunk_ref) ! (wet_positions (h mask_ref) ! k) = nan"
    by (simp add: dense_of_nth)
  with w restore_full_grid_ok [OF assms(1)] restore_full_grid_readme_ok [OF assms(1)]
  show ?thesis by simp
qed

theorem restore_full_grid_zero_becomes_nan_witness:
  "length (store_of [0, f32_one, f32_one] [f32_five, 0] 1) =
     np_sum (ne_zero (store_of [0, f32_one, f32_one] [f32_five, 0] 0)) \<and>
   store_of [0, f32_one, f32_one] [f32_five, 0] 1 ! 1 = 0 \<and>
   wet_positions (store_of [0, f32_one, f32_one] [f32_five, 0] 0) ! 1 = 2 \<and>
   fst (restore_full_grid 0 1 (store_of [0, f32_one, f32_one] [f32_five, 0])) = None \<and>
   snd (restore_full_grid 0 1 (store_of [0, f32_one, f32_one] [f32_five, 0])) 0 ! 2 = nan \<and>
   fst (restore_full_grid_readme 0 1 (store_of [0, f32_one, f32_one] [f32_five, 0])) = None \<and>
   snd (restore_full_grid_readme 0 1 (store_of [0, f32_one, f32_one] [f32_five, 0])) 0 ! 2 = nan"
proof -
  let ?h = "store_of [0, f32_one, f32_one] [f32_five, 0]"
  have l: "length (?h 1) = np_sum (ne_zero (?h 0))"
    by (simp add: store_of_def ne_zero_def f32_eq_zero_def f32_one_def)
  have k: "1 < length (?h 1)"
    by (simp add: store_of_def)
  have z: "?h 1 ! 1 = 0"
    by (simp add: store_of_def)
  then have z': "f32_eq_zero (?h 1 ! 1)"
    by (simp add: f32_eq_zero_def)
  have w: "wet_positions (?h 0) ! 1 = 2"
    by (simp add: wet_positions_def store_of_def f32_eq_zero_def f32_one_def upt_conv_Cons)
  from restore_full_grid_zero_becomes_nan [OF l k z'] l z w show ?thesis by simp
qed

subsection \<open>The README variant on a single value\<close>

text \<open>
  C10. The README variant has no length check. Given a shrunk array of one value and a
  mask with more than one nonzero entry (a mismatch), it raises nothing: the assignment
  broadcasts the value to every wet cell, and the fill then sets the dry cells to NaN
  (and the wet cells too, if the value compares equal to zero).
\<close>

theorem restore_full_grid_readme_broadcast:
  assumes "h shrunk_ref = [v]" and "1 < np_sum (ne_zero (h mask_ref))"
  shows "length (h shrunk_ref) \<noteq> np_sum (ne_zero (h mask_ref)) \<and>
         restore_full_grid_readme mask_ref shrunk_ref h =
           (None, h(mask_ref :=
              map (\<lambda>x. if f32_eq_zero x then nan else if f32_eq_zero v then nan else v) (h mask_ref)))"
proof
  show "length (h shrunk_ref) \<noteq> np_sum (ne_zero (h mask_ref))"
    using assms by simp
  show "restore_full_grid_readme mask_ref shrunk_ref h =
      (None, h(mask_ref :=
         map (\<lambda>x. if f32_eq_zero x then nan else if f32_eq_zero v then nan else v) (h mask_ref)))"
    unfolding restore_full_grid_readme_def assms(1) setitem_bool_broadcast
    by (simp add: Let_def fill_after_broadcast)
qed

theorem restore_full_grid_readme_broadcast_witness:
  "store_of [0, f32_one, f32_one, 0] [f32_five] 1 = [f32_five] \<and>
   1 < np_sum (ne_zero (store_of [0, f32_one, f32_one, 0] [f32_five] 0)) \<and>
   restore_full_grid_readme 0 1 (store_of [0, f32_one, f32_one, 0] [f32_five]) =
     (None, (store_of [0, f32_one, f32_one, 0] [f32_five])(0 := [nan, f32_five, f32_five, nan]))"
proof -
  have s: "store_of [0, f32_one, f32_one, 0] [f32_five] 1 = [f32_five]"
    by (simp add: store_of_def)
  have n: "1 < np_sum (ne_zero (store_of [0, f32_one, f32_one, 0] [f32_five] 0))"
    by (simp add: store_of_def ne_zero_def f32_eq_zero_def f32_one_def)
  have m: "map (\<lambda>x. if f32_eq_zero x then nan else if f32_eq_zero f32_five then nan else f32_five)
      (store_of [0, f32_one, f32_one, 0] [f32_five] 0) = [nan, f32_five, f32_five, nan]"
    by (simp add: store_of_def f32_eq_zero_def f32_one_def f32_five_def)
  from restore_full_grid_readme_broadcast [OF s n] s n m show ?thesis by simp
qed

subsection \<open>The split\<close>

text \<open>
  C8. For a dense grid whose length is not \<open>N = ROWS * COLS\<close>, the split fails with
  ShapeMismatchError and returns no tile.
\<close>

theorem split_shapes_mismatch:
  "length dense \<noteq> ROWS g * COLS g \<Longrightarrow> split_shapes g dense = Inl ShapeMismatchError"
  by (simp add: split_shapes_def)

theorem split_shapes_mismatch_witness:
  "length [nan, nan, nan] \<noteq> ROWS reference_geometry * COLS reference_geometry \<and>
   split_shapes reference_geometry [nan, nan, nan] = Inl ShapeMismatchError"
proof -
  have "length [nan, nan, nan] \<noteq> ROWS reference_geometry * COLS reference_geometry"
    by (simp add: reference_geometry_def)
  from split_shapes_mismatch [OF this] this show ?thesis by simp
qed

end
